theory Spec2Isabelle
  imports Main "HOL-Library.Word"
begin

section \<open>Strings\<close>

text \<open>
  A JavaScript string is a sequence of 16-bit code units. The literals of the component
  are Chinese, so they are written as code units; ASCII literals go through \<open>ascii\<close>.
\<close>

type_synonym jsstring = "16 word list"

definition ascii :: "string \<Rightarrow> jsstring" where
  "ascii s = map of_char s"

text \<open>
  \<open>String.prototype.trim\<close> removes the leading and trailing WhiteSpace and LineTerminator
  code points of ECMAScript.
\<close>

definition is_white_space :: "16 word \<Rightarrow> bool" where
  "is_white_space c \<longleftrightarrow>
     c \<in> set [0x0009, 0x000A, 0x000B, 0x000C, 0x000D, 0x0020, 0x00A0, 0x1680,
              0x2028, 0x2029, 0x202F, 0x205F, 0x3000, 0xFEFF]
     \<or> (0x2000 \<le> c \<and> c \<le> 0x200A)"

definition trim :: "jsstring \<Rightarrow> jsstring" where
  "trim s = rev (dropWhile is_white_space (rev (dropWhile is_white_space s)))"

subsection \<open>The literals of the component\<close>

text \<open>Notices of \<open>handleUserFormSubmit\<close> (lines 237, 243, 248, 269, 276, 283-286).\<close>

definition msg_username_empty :: jsstring where
  "msg_username_empty = [0x7528, 0x6237, 0x540D, 0x4E0D, 0x80FD, 0x4E3A, 0x7A7A]"

definition msg_password_empty :: jsstring where
  "msg_password_empty = [0x5BC6, 0x7801, 0x4E0D, 0x80FD, 0x4E3A, 0x7A7A]"

definition msg_password_mismatch :: jsstring where
  "msg_password_mismatch =
     [0x4E24, 0x6B21, 0x8F93, 0x5165, 0x7684, 0x5BC6, 0x7801, 0x4E0D, 0x4E00, 0x81F4]"

definition msg_update_ok :: jsstring where
  "msg_update_ok = [0x7528, 0x6237, 0x66F4, 0x65B0, 0x6210, 0x529F]"

definition msg_create_ok :: jsstring where
  "msg_create_ok = [0x7528, 0x6237, 0x521B, 0x5EFA, 0x6210, 0x529F]"

definition log_operation_failed :: jsstring where
  "log_operation_failed = [0x7528, 0x6237, 0x64CD, 0x4F5C, 0x5931, 0x8D25, 0x003A]"

definition msg_operation_failed :: jsstring where
  "msg_operation_failed = [0x64CD, 0x4F5C, 0x5931, 0x8D25]"

definition msg_retry_later :: jsstring where
  "msg_retry_later = [0x8BF7, 0x7A0D, 0x540E, 0x91CD, 0x8BD5]"

text \<open>Literals of \<open>fetchUsers\<close> (lines 195, 196).\<close>

definition log_fetch_failed :: jsstring where
  "log_fetch_failed = [0x83B7, 0x53D6, 0x7528, 0x6237, 0x5217, 0x8868, 0x5931, 0x8D25, 0x003A]"

definition msg_fetch_failed :: jsstring where
  "msg_fetch_failed = [0x83B7, 0x53D6, 0x7528, 0x6237, 0x5217, 0x8868, 0x5931, 0x8D25]"

text \<open>Literals of \<open>confirmDeleteUser\<close> (lines 297, 305-309, 314, 318-321).\<close>

definition msg_cannot_delete_self :: jsstring where
  "msg_cannot_delete_self =
     [0x4E0D, 0x80FD, 0x5220, 0x9664, 0x81EA, 0x5DF1, 0x7684, 0x8D26, 0x6237]"

definition confirm_title :: jsstring where
  "confirm_title = [0x786E, 0x8BA4, 0x5220, 0x9664, 0x7528, 0x6237]"

definition confirm_prefix :: jsstring where
  "confirm_prefix = [0x786E, 0x5B9A, 0x8981, 0x5220, 0x9664, 0x7528, 0x6237, 0x0020, 0x0022]"

definition confirm_suffix :: jsstring where
  "confirm_suffix =
     [0x0022, 0x0020, 0x5417, 0xFF1F, 0x6B64, 0x64CD, 0x4F5C, 0x4E0D, 0x53EF, 0x64A4,
      0x9500, 0x3002]"

definition confirm_okText :: jsstring where
  "confirm_okText = [0x5220, 0x9664]"

definition confirm_cancelText :: jsstring where
  "confirm_cancelText = [0x53D6, 0x6D88]"

definition msg_delete_ok :: jsstring where
  "msg_delete_ok = [0x7528, 0x6237, 0x5220, 0x9664, 0x6210, 0x529F]"

definition log_delete_failed :: jsstring where
  "log_delete_failed = [0x5220, 0x9664, 0x7528, 0x6237, 0x5931, 0x8D25, 0x003A]"

definition msg_delete_failed :: jsstring where
  "msg_delete_failed = [0x5220, 0x9664, 0x5931, 0x8D25]"

text \<open>Modal titles (lines 153, 204, 219) and role labels (lines 377-379).\<close>

definition title_add_user :: jsstring where
  "title_add_user = [0x6DFB, 0x52A0, 0x7528, 0x6237]"

definition title_edit_user :: jsstring where
  "title_edit_user = [0x7F16, 0x8F91, 0x7528, 0x6237]"

definition label_superadmin :: jsstring where
  "label_superadmin = [0x8D85, 0x7EA7, 0x7BA1, 0x7406, 0x5458]"

definition label_admin :: jsstring where
  "label_admin = [0x7BA1, 0x7406, 0x5458]"

definition label_user :: jsstring where
  "label_user = [0x666E, 0x901A, 0x7528, 0x6237]"

section \<open>Presentation helpers\<close>

text \<open>\<open>getRoleLabel\<close> (lines 375-382): a switch on the role string, the default echoes it.\<close>

definition getRoleLabel :: "jsstring \<Rightarrow> jsstring" where
  "getRoleLabel role =
     (if role = ascii ''superadmin'' then label_superadmin
      else if role = ascii ''admin'' then label_admin
      else if role = ascii ''user'' then label_user
      else role)"

text \<open>\<open>getRoleColor\<close> (lines 385-392).\<close>

definition getRoleColor :: "jsstring \<Rightarrow> jsstring" where
  "getRoleColor role =
     (if role = ascii ''superadmin'' then ascii ''red''
      else if role = ascii ''admin'' then ascii ''blue''
      else if role = ascii ''user'' then ascii ''green''
      else ascii ''default'')"

section \<open>Data model\<close>

type_synonym ident = int

text \<open>
  A row of the table. The field \<open>id\<close> of the source is \<open>id_field\<close> here, since \<open>id\<close> is
  the identity function of HOL.
\<close>

record user =
  id_field :: ident
  username :: jsstring
  role :: jsstring
  created_at :: jsstring
  last_login :: "jsstring option"

text \<open>
  \<open>userManagement.form\<close> (lines 156-161). Its \<open>username\<close> and \<open>role\<close> are
  \<open>form_username\<close> and \<open>form_role\<close>, to keep them apart from the fields of a row.
\<close>

record form =
  form_username :: jsstring
  password :: jsstring
  confirmPassword :: jsstring
  form_role :: jsstring

text \<open>The reactive object \<open>userManagement\<close> (lines 148-163); \<open>null\<close> is \<open>None\<close>.\<close>

record userManagement =
  loading :: bool
  users :: "user list"
  error :: "jsstring option"
  modalVisible :: bool
  modalTitle :: jsstring
  editMode :: bool
  editUserId :: "ident option"
  form :: form
  displayPasswordFields :: bool

definition userManagement_init :: userManagement where
  "userManagement_init =
     \<lparr>loading = False, users = [], error = None, modalVisible = False,
      modalTitle = title_add_user, editMode = False, editUserId = None,
      form = \<lparr>form_username = [], password = [], confirmPassword = [],
              form_role = ascii ''user''\<rparr>,
      displayPasswordFields = True\<rparr>"

text \<open>
  The object literal passed to \<open>createUser\<close> (lines 271-275) and the object \<open>updateData\<close>
  (lines 258-266), whose key \<open>password\<close> is present or absent.
\<close>

record create_data =
  new_username :: jsstring
  new_password :: jsstring
  new_role :: jsstring

record update_data =
  upd_username :: jsstring
  upd_role :: jsstring
  upd_password :: "jsstring option"

text \<open>
  A value thrown by the facade: an error object whose \<open>message\<close> may be missing.
\<close>

datatype js_error = JsError (message: "jsstring option")

text \<open>\<open>error.message || fallback\<close>: a missing or empty message is falsy.\<close>

definition message_or :: "js_error \<Rightarrow> jsstring \<Rightarrow> jsstring" where
  "message_or e fallback =
     (case message e of None \<Rightarrow> fallback
      | Some m \<Rightarrow> if m = [] then fallback else m)"

text \<open>The options object given to the confirm dialog (lines 304-309).\<close>

record confirm_options =
  title :: jsstring
  content :: jsstring
  okText :: jsstring
  okType :: jsstring
  cancelText :: jsstring

section \<open>The facade and the observable effects\<close>

text \<open>
  \<open>userStore\<close> is an external collaborator. Its operations are parameters of the model:
  each reads and updates a state \<open>'srv\<close> of its own (the remote service) and either
  throws (\<open>Inl\<close>) or returns (\<open>Inr\<close>). The component discards what the three mutations
  return, so they return \<open>unit\<close>.
\<close>

record 'srv userStore =
  userId :: ident
  userRole :: jsstring
  isSuperAdmin :: bool
  getUsers :: "'srv \<Rightarrow> (js_error + user list) \<times> 'srv"
  createUser :: "create_data \<Rightarrow> 'srv \<Rightarrow> (js_error + unit) \<times> 'srv"
  updateUser :: "ident option \<Rightarrow> update_data \<Rightarrow> 'srv \<Rightarrow> (js_error + unit) \<times> 'srv"
  deleteUser :: "ident \<Rightarrow> 'srv \<Rightarrow> (js_error + unit) \<times> 'srv"

datatype facade_call =
    GetUsers
  | CreateUser create_data
  | UpdateUser "ident option" update_data
  | DeleteUser ident

text \<open>
  What the component does to the outside, in order: a facade operation awaited (with
  the component state on display while the handler is suspended), a notice of the
  toolkit (message and optional description), a line on the console, a confirm dialog.
\<close>

datatype event =
    Await facade_call userManagement
  | NotifyError jsstring "jsstring option"
  | NotifySuccess jsstring
  | ConsoleError jsstring js_error
  | ModalConfirm confirm_options

record 'srv sys =
  um :: userManagement
  server :: "'srv"
  trace :: "event list"

fun facade_calls :: "event list \<Rightarrow> facade_call list" where
  "facade_calls [] = []"
| "facade_calls (Await c u # evs) = c # facade_calls evs"
| "facade_calls (ev # evs) = facade_calls evs"

section \<open>Handlers as programs\<close>

text \<open>
  A handler runs on the system state and completes normally (\<open>Inr\<close>) or by throwing
  (\<open>Inl\<close>).
\<close>

type_synonym ('a, 'srv) prog = "'srv sys \<Rightarrow> (js_error + 'a) \<times> 'srv sys"

definition done_ok :: "(unit, 'srv) prog" where
  "done_ok s = (Inr (), s)"

definition and_then :: "('a, 'srv) prog \<Rightarrow> ('a \<Rightarrow> ('b, 'srv) prog) \<Rightarrow> ('b, 'srv) prog" where
  "and_then p f s = (case p s of (Inl e, s') \<Rightarrow> (Inl e, s') | (Inr a, s') \<Rightarrow> f a s')"

definition seq :: "(unit, 'srv) prog \<Rightarrow> ('b, 'srv) prog \<Rightarrow> ('b, 'srv) prog" where
  "seq p q = and_then p (\<lambda>_. q)"

definition assign :: "(userManagement \<Rightarrow> userManagement) \<Rightarrow> (unit, 'srv) prog" where
  "assign f s = (Inr (), s\<lparr>um := f (um s)\<rparr>)"

definition emit :: "event \<Rightarrow> (unit, 'srv) prog" where
  "emit ev s = (Inr (), s\<lparr>trace := trace s @ [ev]\<rparr>)"

text \<open>\<open>await userStore.op(...)\<close>: the call is recorded, then the facade answers.\<close>

definition await :: "facade_call \<Rightarrow> ('srv \<Rightarrow> (js_error + 'a) \<times> 'srv) \<Rightarrow> ('a, 'srv) prog" where
  "await c op s =
     (case op (server s) of
        (r, srv') \<Rightarrow> (r, s\<lparr>server := srv', trace := trace s @ [Await c (um s)]\<rparr>))"

text \<open>
  \<open>try { body } catch (e) { handler } finally { fin }\<close>: the handler runs when the body
  throws; \<open>fin\<close> runs in every case and, unless it throws itself, the completion of the
  body (or of the handler) stands. A \<open>return\<close> inside the body is a normal completion
  of the body.
\<close>

definition try_catch_finally ::
  "(unit, 'srv) prog \<Rightarrow> (js_error \<Rightarrow> (unit, 'srv) prog) \<Rightarrow> (unit, 'srv) prog \<Rightarrow> (unit, 'srv) prog"
where
  "try_catch_finally body handler fin s =
     (case (case body s of (Inl e, s1) \<Rightarrow> handler e s1 | (Inr a, s1) \<Rightarrow> (Inr a, s1)) of
        (r, s2) \<Rightarrow> (case fin s2 of (Inl e, s3) \<Rightarrow> (Inl e, s3) | (Inr _, s3) \<Rightarrow> (r, s3)))"

section \<open>The component\<close>

subsection \<open>Listing\<close>

text \<open>\<open>fetchUsers\<close> (lines 188-200).\<close>

definition fetchUsers :: "'srv userStore \<Rightarrow> (unit, 'srv) prog" where
  "fetchUsers store =
     try_catch_finally
       (seq (assign (\<lambda>u. u\<lparr>loading := True\<rparr>))
         (and_then (await GetUsers (getUsers store))
           (\<lambda>fetched. seq (assign (\<lambda>u. u\<lparr>users := fetched\<rparr>))
                           (assign (\<lambda>u. u\<lparr>error := None\<rparr>)))))
       (\<lambda>err. seq (emit (ConsoleError log_fetch_failed err))
                   (assign (\<lambda>u. u\<lparr>error := Some msg_fetch_failed\<rparr>)))
       (assign (\<lambda>u. u\<lparr>loading := False\<rparr>))"

text \<open>\<open>onMounted\<close> (lines 395-397) runs once, on the initial state of the component.\<close>

definition onMounted :: "'srv userStore \<Rightarrow> (unit, 'srv) prog" where
  "onMounted store = fetchUsers store"

definition sys_init :: "'srv \<Rightarrow> 'srv sys" where
  "sys_init srv = \<lparr>um = userManagement_init, server = srv, trace = []\<rparr>"

definition mounted :: "'srv userStore \<Rightarrow> 'srv \<Rightarrow> 'srv sys" where
  "mounted store srv = snd (onMounted store (sys_init srv))"

subsection \<open>The form\<close>

text \<open>\<open>showAddUserModal\<close> (lines 203-215) and \<open>showEditUserModal\<close> (lines 218-230).\<close>

definition showAddUserModal :: "userManagement \<Rightarrow> userManagement" where
  "showAddUserModal u =
     u\<lparr>modalTitle := title_add_user, editMode := False, editUserId := None,
       form := \<lparr>form_username = [], password = [], confirmPassword = [],
                form_role = ascii ''user''\<rparr>,
       displayPasswordFields := True, modalVisible := True\<rparr>"

definition showEditUserModal :: "user \<Rightarrow> userManagement \<Rightarrow> userManagement" where
  "showEditUserModal usr u =
     u\<lparr>modalTitle := title_edit_user, editMode := True, editUserId := Some (id_field usr),
       form := \<lparr>form_username = username usr, password = [], confirmPassword = [],
                form_role = role usr\<rparr>,
       displayPasswordFields := False, modalVisible := True\<rparr>"

text \<open>The object \<open>updateData\<close> built in edit mode (lines 258-266).\<close>

definition updateData :: "userManagement \<Rightarrow> update_data" where
  "updateData u =
     \<lparr>upd_username = trim (form_username (form u)), upd_role = form_role (form u),
      upd_password =
        (if displayPasswordFields u \<and> password (form u) \<noteq> [] then Some (password (form u))
         else None)\<rparr>"

text \<open>The argument of \<open>createUser\<close> (lines 271-275).\<close>

definition createData :: "userManagement \<Rightarrow> create_data" where
  "createData u =
     \<lparr>new_username = trim (form_username (form u)), new_password = password (form u),
      new_role = form_role (form u)\<rparr>"

text \<open>
  \<open>handleUserFormSubmit\<close> (lines 233-291). \<open>submit_request\<close> is the part of the \<open>try\<close>
  block after the validation (lines 253-281); each \<open>return\<close> of the validation ends the
  \<open>try\<close> block normally, so the \<open>finally\<close> block still runs.
\<close>

definition submit_request :: "'srv userStore \<Rightarrow> (unit, 'srv) prog" where
  "submit_request store =
     seq (assign (\<lambda>u. u\<lparr>loading := True\<rparr>))
       (seq (\<lambda>s. if editMode (um s)
                 then seq (await (UpdateUser (editUserId (um s)) (updateData (um s)))
                             (updateUser store (editUserId (um s)) (updateData (um s))))
                          (emit (NotifySuccess msg_update_ok)) s
                 else seq (await (CreateUser (createData (um s)))
                             (createUser store (createData (um s))))
                          (emit (NotifySuccess msg_create_ok)) s)
         (seq (fetchUsers store)
              (assign (\<lambda>u. u\<lparr>modalVisible := False\<rparr>))))"

definition submit_try :: "'srv userStore \<Rightarrow> (unit, 'srv) prog" where
  "submit_try store s =
     (if trim (form_username (form (um s))) = []
      then emit (NotifyError msg_username_empty None) s
      else if displayPasswordFields (um s)
      then (if password (form (um s)) = []
            then emit (NotifyError msg_password_empty None) s
            else if password (form (um s)) \<noteq> confirmPassword (form (um s))
            then emit (NotifyError msg_password_mismatch None) s
            else submit_request store s)
      else submit_request store s)"

definition handleUserFormSubmit :: "'srv userStore \<Rightarrow> (unit, 'srv) prog" where
  "handleUserFormSubmit store =
     try_catch_finally
       (submit_try store)
       (\<lambda>err. seq (emit (ConsoleError log_operation_failed err))
                   (emit (NotifyError msg_operation_failed
                            (Some (message_or err msg_retry_later)))))
       (assign (\<lambda>u. u\<lparr>loading := False\<rparr>))"

subsection \<open>Deletion\<close>

text \<open>The \<open>:disabled\<close> binding of the delete button of a row (line 63).\<close>

definition delete_disabled :: "'srv userStore \<Rightarrow> user \<Rightarrow> bool" where
  "delete_disabled store row \<longleftrightarrow>
     id_field row = userId store
     \<or> (role row = ascii ''superadmin'' \<and> userRole store \<noteq> ascii ''superadmin'')"

text \<open>The callback \<open>onOk\<close> of the confirm dialog (lines 310-326).\<close>

definition onOk :: "'srv userStore \<Rightarrow> user \<Rightarrow> (unit, 'srv) prog" where
  "onOk store usr =
     try_catch_finally
       (seq (assign (\<lambda>u. u\<lparr>loading := True\<rparr>))
         (seq (await (DeleteUser (id_field usr)) (deleteUser store (id_field usr)))
           (seq (emit (NotifySuccess msg_delete_ok))
                (fetchUsers store))))
       (\<lambda>err. seq (emit (ConsoleError log_delete_failed err))
                   (emit (NotifyError msg_delete_failed
                            (Some (message_or err msg_retry_later)))))
       (assign (\<lambda>u. u\<lparr>loading := False\<rparr>))"

text \<open>
  The confirm dialog belongs to the toolkit, not to the component. It is taken as: the
  dialog shows the options, and runs the callback exactly when the user accepts.
\<close>

datatype decision = Accepted | Cancelled

definition modal_confirm ::
  "confirm_options \<Rightarrow> (unit, 'srv) prog \<Rightarrow> decision \<Rightarrow> (unit, 'srv) prog" where
  "modal_confirm opts callback d =
     seq (emit (ModalConfirm opts))
         (case d of Accepted \<Rightarrow> callback | Cancelled \<Rightarrow> done_ok)"

text \<open>
  The options object of lines 304-309; the template literal of line 306 is the
  concatenation around the username.
\<close>

definition delete_dialog :: "user \<Rightarrow> confirm_options" where
  "delete_dialog usr =
     \<lparr>title = confirm_title, content = confirm_prefix @ username usr @ confirm_suffix,
      okText = confirm_okText, okType = ascii ''danger'', cancelText = confirm_cancelText\<rparr>"

text \<open>\<open>confirmDeleteUser\<close> (lines 294-328), with the user's answer to the dialog.\<close>

definition confirmDeleteUser :: "'srv userStore \<Rightarrow> user \<Rightarrow> decision \<Rightarrow> (unit, 'srv) prog" where
  "confirmDeleteUser store usr d s =
     (if id_field usr = userId store
      then emit (NotifyError msg_cannot_delete_self None) s
      else modal_confirm (delete_dialog usr) (onOk store usr) d s)"

subsection \<open>The watcher and the events of the template\<close>

text \<open>
  The callback of \<open>watch(() => userManagement.displayPasswordFields, ...)\<close> (lines
  166-172). The framework calls it after a handler has run, when the watched value
  differs from the one before the handler.
\<close>

definition watch_displayPasswordFields :: "bool \<Rightarrow> userManagement \<Rightarrow> userManagement" where
  "watch_displayPasswordFields newVal u =
     (if \<not> newVal
      then u\<lparr>form := (form u)\<lparr>password := [], confirmPassword := []\<rparr>\<rparr>
      else u)"

definition flush_watch :: "bool \<Rightarrow> userManagement \<Rightarrow> userManagement" where
  "flush_watch oldVal u =
     (if displayPasswordFields u \<noteq> oldVal
      then watch_displayPasswordFields (displayPasswordFields u) u
      else u)"

text \<open>
  What the user can do on the template (lines 1-133): the two buttons that open the
  modal, the \<open>v-model\<close> bindings of the form, the modal's ok and cancel, and the delete
  button of a row with the user's answer to the dialog.
\<close>

datatype ui_event =
    ClickAdd
  | ClickEdit user
  | InputUsername jsstring
  | InputPassword jsstring
  | InputConfirmPassword jsstring
  | CheckChangePassword bool
  | SelectRole jsstring
  | ClickOk
  | ClickCancel
  | ClickDelete user decision

text \<open>
  An event is possible when its control is rendered and not disabled: the \<open>v-if\<close>
  conditions of lines 97, 105, 126 and 127, the \<open>:disabled\<close> binding of line 63, and the
  rows of the table being the elements of \<open>users\<close>.
\<close>

fun enabled :: "'srv userStore \<Rightarrow> userManagement \<Rightarrow> ui_event \<Rightarrow> bool" where
  "enabled store u ClickAdd = True"
| "enabled store u (ClickEdit row) = (row \<in> set (users u))"
| "enabled store u (InputUsername v) = True"
| "enabled store u (InputPassword v) = (\<not> editMode u \<or> displayPasswordFields u)"
| "enabled store u (InputConfirmPassword v) = (\<not> editMode u \<or> displayPasswordFields u)"
| "enabled store u (CheckChangePassword b) = editMode u"
| "enabled store u (SelectRole r) =
     (r = ascii ''user''
      \<or> (isSuperAdmin store \<and> (r = ascii ''admin'' \<or> r = ascii ''superadmin'')))"
| "enabled store u ClickOk = True"
| "enabled store u ClickCancel = True"
| "enabled store u (ClickDelete row d) =
     (row \<in> set (users u) \<and> \<not> delete_disabled store row)"

fun handle :: "'srv userStore \<Rightarrow> ui_event \<Rightarrow> (unit, 'srv) prog" where
  "handle store ClickAdd = assign showAddUserModal"
| "handle store (ClickEdit row) = assign (showEditUserModal row)"
| "handle store (InputUsername v) = assign (\<lambda>u. u\<lparr>form := (form u)\<lparr>form_username := v\<rparr>\<rparr>)"
| "handle store (InputPassword v) = assign (\<lambda>u. u\<lparr>form := (form u)\<lparr>password := v\<rparr>\<rparr>)"
| "handle store (InputConfirmPassword v) =
     assign (\<lambda>u. u\<lparr>form := (form u)\<lparr>confirmPassword := v\<rparr>\<rparr>)"
| "handle store (CheckChangePassword b) = assign (\<lambda>u. u\<lparr>displayPasswordFields := b\<rparr>)"
| "handle store (SelectRole r) = assign (\<lambda>u. u\<lparr>form := (form u)\<lparr>form_role := r\<rparr>\<rparr>)"
| "handle store ClickOk = handleUserFormSubmit store"
| "handle store ClickCancel = assign (\<lambda>u. u\<lparr>modalVisible := False\<rparr>)"
| "handle store (ClickDelete row d) = confirmDeleteUser store row d"

text \<open>One event: its handler, then the watcher.\<close>

definition fire :: "'srv userStore \<Rightarrow> ui_event \<Rightarrow> 'srv sys \<Rightarrow> 'srv sys" where
  "fire store ev s =
     (let s' = snd (handle store ev s)
      in s'\<lparr>um := flush_watch (displayPasswordFields (um s)) (um s')\<rparr>)"

text \<open>A session: events in order, each possible in the state it meets.\<close>

fun run :: "'srv userStore \<Rightarrow> ui_event list \<Rightarrow> 'srv sys \<Rightarrow> 'srv sys option" where
  "run store [] s = Some s"
| "run store (ev # evs) s =
     (if enabled store (um s) ev then run store evs (fire store ev s) else None)"

section \<open>Observations\<close>

text \<open>What a run from \<open>s\<close> to \<open>s'\<close> did to the outside.\<close>

definition emitted :: "'srv sys \<Rightarrow> 'srv sys \<Rightarrow> event list" where
  "emitted s s' = drop (length (trace s)) (trace s')"

text \<open>The three checks of lines 236-251 all pass.\<close>

abbreviation passes_validation :: "userManagement \<Rightarrow> bool" where
  "passes_validation u \<equiv>
     trim (form_username (form u)) \<noteq> []
     \<and> (displayPasswordFields u \<longrightarrow>
          password (form u) \<noteq> [] \<and> password (form u) = confirmPassword (form u))"

text \<open>
  The state in which a handler fetches the list again: the mutation \<open>c\<close> has returned,
  leaving the service in \<open>srv1\<close>, and the success notice \<open>m\<close> is out.
\<close>

definition after_mutation :: "'srv sys \<Rightarrow> facade_call \<Rightarrow> 'srv \<Rightarrow> jsstring \<Rightarrow> 'srv sys" where
  "after_mutation s c srv1 m =
     s\<lparr>um := (um s)\<lparr>loading := True\<rparr>, server := srv1,
       trace := trace s @ [Await c ((um s)\<lparr>loading := True\<rparr>), NotifySuccess m]\<rparr>"

text \<open>The part of the component state that belongs to the form, and its invariant.\<close>

definition form_part :: "userManagement \<Rightarrow> form \<times> bool \<times> bool" where
  "form_part u = (form u, editMode u, displayPasswordFields u)"

definition form_inv :: "userManagement \<Rightarrow> bool" where
  "form_inv u \<longleftrightarrow>
     (\<not> editMode u \<longrightarrow> displayPasswordFields u)
     \<and> (\<not> displayPasswordFields u \<longrightarrow> password (form u) = [] \<and> confirmPassword (form u) = [])"

section \<open>A facade in memory and sample data\<close>

text \<open>
  A service that keeps the accounts in a list, for running the handlers on concrete
  inputs, and an operation that always throws.
\<close>

definition memory_store :: "ident \<Rightarrow> jsstring \<Rightarrow> (user list) userStore" where
  "memory_store uid urole =
     \<lparr>userId = uid, userRole = urole, isSuperAdmin = (urole = ascii ''superadmin''),
      getUsers = (\<lambda>srv. (Inr srv, srv)),
      createUser = (\<lambda>d srv.
        (Inr (), srv @ [\<lparr>id_field = int (length srv) + 1, username = new_username d,
                          role = new_role d, created_at = [], last_login = None\<rparr>])),
      updateUser = (\<lambda>i d srv.
        (Inr (), map (\<lambda>r. if Some (id_field r) = i
                             then r\<lparr>username := upd_username d, role := upd_role d\<rparr>
                             else r) srv)),
      deleteUser = (\<lambda>i srv. (Inr (), filter (\<lambda>r. id_field r \<noteq> i) srv))\<rparr>"

definition offline :: "'srv \<Rightarrow> (js_error + 'a) \<times> 'srv" where
  "offline srv = (Inl (JsError (Some (ascii ''offline''))), srv)"

definition root_user :: user where
  "root_user = \<lparr>id_field = 1, username = ascii ''root'', role = ascii ''superadmin'',
                 created_at = ascii ''2024-01-01T00:00:00'', last_login = None\<rparr>"

definition alice :: user where
  "alice = \<lparr>id_field = 2, username = ascii ''alice'', role = ascii ''user'',
             created_at = ascii ''2024-02-01T00:00:00'', last_login = None\<rparr>"

definition carol :: user where
  "carol = \<lparr>id_field = 3, username = ascii ''carol'', role = ascii ''admin'',
             created_at = ascii ''2024-03-01T00:00:00'', last_login = None\<rparr>"

text \<open>
  The superadmin \<open>root\<close> is signed in, and the component is mounted on three accounts.
\<close>

definition demo_store :: "(user list) userStore" where
  "demo_store = memory_store 1 (ascii ''superadmin'')"

definition demo_sys :: "(user list) sys" where
  "demo_sys = mounted demo_store [root_user, alice, carol]"

text \<open>The add form filled in, and the edit form of a row with a new username.\<close>

definition add_session :: "jsstring \<Rightarrow> jsstring \<Rightarrow> jsstring \<Rightarrow> (user list) sys" where
  "add_session name pw cpw =
     fire demo_store (InputConfirmPassword cpw)
       (fire demo_store (InputPassword pw)
         (fire demo_store (InputUsername name)
           (fire demo_store ClickAdd demo_sys)))"

definition edit_session :: "user \<Rightarrow> jsstring \<Rightarrow> (user list) sys" where
  "edit_session row name =
     fire demo_store (InputUsername name) (fire demo_store (ClickEdit row) demo_sys)"

text \<open>
  The edit form of \<open>carol\<close> with the box "change password" ticked and a password typed.
\<close>

definition password_session :: "(user list) sys" where
  "password_session =
     fire demo_store (InputPassword (ascii ''p1''))
       (fire demo_store (CheckChangePassword True)
         (fire demo_store (ClickEdit carol) demo_sys))"

section \<open>Lemmas: what each handler computes\<close>

lemmas prog_defs = done_ok_def and_then_def seq_def assign_def emit_def await_def try_catch_finally_def

lemma fetchUsers_ok:
  "getUsers store (server s) = (Inr fetched, srv') \<Longrightarrow>
   fetchUsers store s =
     (Inr (), s\<lparr>um := (um s)\<lparr>loading := False, users := fetched, error := None\<rparr>,
               server := srv',
               trace := trace s @ [Await GetUsers ((um s)\<lparr>loading := True\<rparr>)]\<rparr>)"
  by (simp add: fetchUsers_def prog_defs)

lemma fetchUsers_fail:
  "getUsers store (server s) = (Inl err, srv') \<Longrightarrow>
   fetchUsers store s =
     (Inr (), s\<lparr>um := (um s)\<lparr>loading := False, error := Some msg_fetch_failed\<rparr>,
               server := srv',
               trace := trace s @ [Await GetUsers ((um s)\<lparr>loading := True\<rparr>),
                                   ConsoleError log_fetch_failed err]\<rparr>)"
  by (simp add: fetchUsers_def prog_defs)

lemma fetchUsers_returns: "fst (fetchUsers store s) = Inr ()"
  by (cases "getUsers store (server s)"; cases "fst (getUsers store (server s))")
     (simp_all add: fetchUsers_ok fetchUsers_fail)

lemma submit_try_valid:
  "passes_validation (um s) \<Longrightarrow> submit_try store s = submit_request store s"
  by (auto simp: submit_try_def)

lemma updateData_loading [simp]: "updateData (u\<lparr>loading := b\<rparr>) = updateData u"
  by (simp add: updateData_def)

lemma createData_loading [simp]: "createData (u\<lparr>loading := b\<rparr>) = createData u"
  by (simp add: createData_def)

lemma submit_rejected:
  assumes "submit_try store s = emit (NotifyError m None) s"
  shows "handleUserFormSubmit store s =
           (Inr (), s\<lparr>um := (um s)\<lparr>loading := False\<rparr>,
                     trace := trace s @ [NotifyError m None]\<rparr>)"
  using assms by (simp add: handleUserFormSubmit_def prog_defs)

lemma submit_update_failed:
  assumes "passes_validation (um s)" "editMode (um s)"
    and "updateUser store (editUserId (um s)) (updateData (um s)) (server s) = (Inl err, srv1)"
  shows "handleUserFormSubmit store s =
           (Inr (), s\<lparr>um := (um s)\<lparr>loading := False\<rparr>, server := srv1,
                     trace := trace s @
                       [Await (UpdateUser (editUserId (um s)) (updateData (um s)))
                              ((um s)\<lparr>loading := True\<rparr>),
                        ConsoleError log_operation_failed err,
                        NotifyError msg_operation_failed (Some (message_or err msg_retry_later))]\<rparr>)"
  using assms(2,3)
  by (simp add: handleUserFormSubmit_def submit_try_valid [OF assms(1)] submit_request_def
      prog_defs)

lemma submit_create_failed:
  assumes "passes_validation (um s)" "\<not> editMode (um s)"
    and "createUser store (createData (um s)) (server s) = (Inl err, srv1)"
  shows "handleUserFormSubmit store s =
           (Inr (), s\<lparr>um := (um s)\<lparr>loading := False\<rparr>, server := srv1,
                     trace := trace s @
                       [Await (CreateUser (createData (um s))) ((um s)\<lparr>loading := True\<rparr>),
                        ConsoleError log_operation_failed err,
                        NotifyError msg_operation_failed (Some (message_or err msg_retry_later))]\<rparr>)"
  using assms(2,3)
  by (simp add: handleUserFormSubmit_def submit_try_valid [OF assms(1)] submit_request_def
      prog_defs)

lemma submit_update_ok:
  assumes "passes_validation (um s)" "editMode (um s)"
    and "updateUser store (editUserId (um s)) (updateData (um s)) (server s) = (Inr (), srv1)"
  shows "handleUserFormSubmit store s =
           (Inr (), (snd (fetchUsers store
                      (after_mutation s (UpdateUser (editUserId (um s)) (updateData (um s)))
                         srv1 msg_update_ok)))
                    \<lparr>um := (um (snd (fetchUsers store
                      (after_mutation s (UpdateUser (editUserId (um s)) (updateData (um s)))
                         srv1 msg_update_ok))))\<lparr>modalVisible := False\<rparr>\<rparr>)"
proof (cases "getUsers store srv1")
  case (Pair r srv2)
  show ?thesis
  proof (cases r)
    case (Inl e)
    with Pair assms(2,3) show ?thesis
      by (simp add: handleUserFormSubmit_def submit_try_valid [OF assms(1)]
          submit_request_def prog_defs
          fetchUsers_fail after_mutation_def)
  next
    case (Inr fetched)
    with Pair assms(2,3) show ?thesis
      by (simp add: handleUserFormSubmit_def submit_try_valid [OF assms(1)]
          submit_request_def prog_defs
          fetchUsers_ok after_mutation_def)
  qed
qed

lemma submit_create_ok:
  assumes "passes_validation (um s)" "\<not> editMode (um s)"
    and "createUser store (createData (um s)) (server s) = (Inr (), srv1)"
  shows "handleUserFormSubmit store s =
           (Inr (), (snd (fetchUsers store
                      (after_mutation s (CreateUser (createData (um s))) srv1 msg_create_ok)))
                    \<lparr>um := (um (snd (fetchUsers store
                      (after_mutation s (CreateUser (createData (um s))) srv1 msg_create_ok))))
                        \<lparr>modalVisible := False\<rparr>\<rparr>)"
proof (cases "getUsers store srv1")
  case (Pair r srv2)
  show ?thesis
  proof (cases r)
    case (Inl e)
    with Pair assms(2,3) show ?thesis
      by (simp add: handleUserFormSubmit_def submit_try_valid [OF assms(1)]
          submit_request_def prog_defs
          fetchUsers_fail after_mutation_def)
  next
    case (Inr fetched)
    with Pair assms(2,3) show ?thesis
      by (simp add: handleUserFormSubmit_def submit_try_valid [OF assms(1)]
          submit_request_def prog_defs
          fetchUsers_ok after_mutation_def)
  qed
qed

lemma onOk_failed:
  assumes "deleteUser store (id_field usr) (server s) = (Inl err, srv1)"
  shows "onOk store usr s =
           (Inr (), s\<lparr>um := (um s)\<lparr>loading := False\<rparr>, server := srv1,
                     trace := trace s @
                       [Await (DeleteUser (id_field usr)) ((um s)\<lparr>loading := True\<rparr>),
                        ConsoleError log_delete_failed err,
                        NotifyError msg_delete_failed (Some (message_or err msg_retry_later))]\<rparr>)"
  using assms by (simp add: onOk_def prog_defs)

lemma onOk_ok:
  assumes "deleteUser store (id_field usr) (server s) = (Inr (), srv1)"
  shows "onOk store usr s =
           (Inr (), snd (fetchUsers store
                      (after_mutation s (DeleteUser (id_field usr)) srv1 msg_delete_ok)))"
proof (cases "getUsers store srv1")
  case (Pair r srv2)
  show ?thesis
  proof (cases r)
    case (Inl e)
    with Pair assms show ?thesis
      by (simp add: onOk_def prog_defs fetchUsers_fail after_mutation_def)
  next
    case (Inr fetched)
    with Pair assms show ?thesis
      by (simp add: onOk_def prog_defs fetchUsers_ok after_mutation_def)
  qed
qed

lemma trim_blank: "\<forall>c\<in>set v. is_white_space c \<Longrightarrow> trim v = []"
proof -
  assume "\<forall>c\<in>set v. is_white_space c"
  then have blank: "dropWhile is_white_space v = []" by simp
  show ?thesis unfolding trim_def blank by simp
qed

lemma emitted_after_mutation:
  "emitted s (snd (fetchUsers store (after_mutation s c srv1 m))) =
     Await c ((um s)\<lparr>loading := True\<rparr>) # NotifySuccess m #
       emitted (after_mutation s c srv1 m) (snd (fetchUsers store (after_mutation s c srv1 m)))"
  by (cases "getUsers store srv1"; cases "fst (getUsers store srv1)")
     (simp_all add: fetchUsers_ok fetchUsers_fail after_mutation_def emitted_def)

lemma emitted_modal [simp]: "emitted s (s'\<lparr>um := u\<rparr>) = emitted s s'"
  by (simp add: emitted_def)

lemma emitted_fetch_calls:
  "facade_calls (emitted t (snd (fetchUsers store t))) = [GetUsers]"
  by (cases "getUsers store (server t)"; cases "fst (getUsers store (server t))")
     (simp_all add: fetchUsers_ok fetchUsers_fail emitted_def)

lemma emitted_fetch_quiet:
  "NotifyError m d \<notin> set (emitted t (snd (fetchUsers store t)))"
  "NotifySuccess m \<notin> set (emitted t (snd (fetchUsers store t)))"
  "ConsoleError log_operation_failed e \<notin> set (emitted t (snd (fetchUsers store t)))"
  by (cases "getUsers store (server t)"; cases "fst (getUsers store (server t))";
      simp add: fetchUsers_ok fetchUsers_fail emitted_def log_fetch_failed_def
        log_operation_failed_def)+


lemma server_after_mutation [simp]: "server (after_mutation s c srv1 m) = srv1"
  by (simp add: after_mutation_def)





section \<open>Lemmas: the form part of the state\<close>

lemma fetchUsers_form_part: "form_part (um (snd (fetchUsers store s))) = form_part (um s)"
  by (cases "getUsers store (server s)"; cases "fst (getUsers store (server s))")
     (simp_all add: fetchUsers_ok fetchUsers_fail form_part_def)

lemma after_mutation_form_part [simp]:
  "form_part (um (after_mutation s c srv1 m)) = form_part (um s)"
  by (simp add: after_mutation_def form_part_def)

lemma form_part_modal [simp]: "form_part (u\<lparr>modalVisible := b\<rparr>) = form_part u"
  by (simp add: form_part_def)

lemma form_part_loading [simp]: "form_part (u\<lparr>loading := b\<rparr>) = form_part u"
  by (simp add: form_part_def)

lemma submit_form_part:
  "form_part (um (snd (handleUserFormSubmit store s))) = form_part (um s)"
proof (cases "passes_validation (um s)")
  case False
  then have "\<exists>m. submit_try store s = emit (NotifyError m None) s"
    by (auto simp: submit_try_def)
  then obtain m where "submit_try store s = emit (NotifyError m None) s" ..
  then show ?thesis by (simp add: submit_rejected)
next
  case v: True
  show ?thesis
  proof (cases "editMode (um s)")
    case True
    show ?thesis
    proof (cases "updateUser store (editUserId (um s)) (updateData (um s)) (server s)")
      case (Pair r srv1)
      then show ?thesis
        using submit_update_ok [OF v True, of store srv1]
          submit_update_failed [OF v True, of store _ srv1]
        by (cases r) (simp_all add: fetchUsers_form_part)
    qed
  next
    case False
    show ?thesis
    proof (cases "createUser store (createData (um s)) (server s)")
      case (Pair r srv1)
      then show ?thesis
        using submit_create_ok [OF v False, of store srv1]
          submit_create_failed [OF v False, of store _ srv1]
        by (cases r) (simp_all add: fetchUsers_form_part)
    qed
  qed
qed

lemma onOk_form_part: "form_part (um (snd (onOk store usr s))) = form_part (um s)"
proof (cases "deleteUser store (id_field usr) (server s)")
  case (Pair r srv1)
  then show ?thesis
    using onOk_ok [of store usr s srv1] onOk_failed [of store usr s _ srv1]
    by (cases r) (simp_all add: fetchUsers_form_part)
qed

lemma delete_form_part:
  "form_part (um (snd (confirmDeleteUser store usr d s))) = form_part (um s)"
  using onOk_form_part [of store usr "s\<lparr>trace := trace s @ [ModalConfirm (delete_dialog usr)]\<rparr>"]
  by (cases d) (simp_all add: confirmDeleteUser_def modal_confirm_def prog_defs)

lemma form_inv_cong: "form_part u' = form_part u \<Longrightarrow> form_inv u' = form_inv u"
  by (simp add: form_part_def form_inv_def)

lemma flush_same: "form_part u' = form_part u \<Longrightarrow>
  form_part (flush_watch (displayPasswordFields u) u') = form_part u"
  by (simp add: form_part_def flush_watch_def)

lemma fire_assign:
  "um (fire store ev s) = flush_watch (displayPasswordFields (um s)) (f (um s))"
  if "handle store ev = assign f"
  using that by (simp add: fire_def assign_def)

lemma fire_inv:
  assumes "form_inv (um s)" and "enabled store (um s) ev"
  shows "form_inv (um (fire store ev s))"
proof (cases ev)
  case ClickOk
  have "form_part (um (fire store ev s)) = form_part (um s)"
    unfolding fire_def ClickOk using flush_same [OF submit_form_part] by (simp add: Let_def)
  from form_inv_cong [OF this] assms(1) show ?thesis by simp
next
  case (ClickDelete row d)
  have "form_part (um (fire store ev s)) = form_part (um s)"
    unfolding fire_def ClickDelete using flush_same [OF delete_form_part] by (simp add: Let_def)
  from form_inv_cong [OF this] assms(1) show ?thesis by simp
next
  case ClickAdd
  then show ?thesis
    by (simp add: fire_assign [where f = showAddUserModal] flush_watch_def
        watch_displayPasswordFields_def form_inv_def showAddUserModal_def)
next
  case (ClickEdit row)
  then show ?thesis
    by (simp add: fire_assign [where f = "showEditUserModal row"] flush_watch_def
        watch_displayPasswordFields_def form_inv_def showEditUserModal_def)
next
  case (InputUsername v)
  with assms(1) show ?thesis
    by (simp add: fire_assign [where f = "\<lambda>u. u\<lparr>form := (form u)\<lparr>form_username := v\<rparr>\<rparr>"]
        flush_watch_def form_inv_def)
next
  case (InputPassword v)
  with assms show ?thesis
    by (auto simp: fire_assign [where f = "\<lambda>u. u\<lparr>form := (form u)\<lparr>password := v\<rparr>\<rparr>"]
        flush_watch_def form_inv_def)
next
  case (InputConfirmPassword v)
  with assms show ?thesis
    by (auto simp: fire_assign [where f = "\<lambda>u. u\<lparr>form := (form u)\<lparr>confirmPassword := v\<rparr>\<rparr>"]
        flush_watch_def form_inv_def)
next
  case (CheckChangePassword b)
  with assms show ?thesis
    by (simp add: fire_assign [where f = "\<lambda>u. u\<lparr>displayPasswordFields := b\<rparr>"]
        flush_watch_def watch_displayPasswordFields_def form_inv_def)
next
  case (SelectRole r)
  with assms(1) show ?thesis
    by (simp add: fire_assign [where f = "\<lambda>u. u\<lparr>form := (form u)\<lparr>form_role := r\<rparr>\<rparr>"]
        flush_watch_def form_inv_def)
next
  case ClickCancel
  with assms(1) show ?thesis
    by (simp add: fire_assign [where f = "\<lambda>u. u\<lparr>modalVisible := False\<rparr>"]
        flush_watch_def form_inv_def)
qed

lemma run_inv:
  "form_inv (um s) \<Longrightarrow> run store evs s = Some s' \<Longrightarrow> form_inv (um s')"
proof (induction evs arbitrary: s)
  case Nil
  then show ?case by simp
next
  case (Cons ev evs)
  from Cons.prems(2) have en: "enabled store (um s) ev"
    and rest: "run store evs (fire store ev s) = Some s'"
    by (simp_all split: if_splits)
  from Cons.IH [OF fire_inv [OF Cons.prems(1) en] rest] show ?case .
qed

lemma mounted_inv: "form_inv (um (mounted store srv0))"
proof -
  have "form_part (um (mounted store srv0)) = form_part userManagement_init"
    using fetchUsers_form_part [of store "sys_init srv0"]
    by (simp add: mounted_def onMounted_def sys_init_def)
  moreover have "form_inv userManagement_init"
    by (simp add: form_inv_def userManagement_init_def)
  ultimately show ?thesis using form_inv_cong by blast
qed

lemma session_inv: "run store evs (mounted store srv0) = Some s' \<Longrightarrow> form_inv (um s')"
  by (rule run_inv [OF mounted_inv])

section \<open>Lemmas: the sample sessions\<close>

lemmas demo_defs = demo_store_def demo_sys_def memory_store_def mounted_def onMounted_def
  sys_init_def userManagement_init_def root_user_def alice_def carol_def

lemma demo_sys_eq:
  "demo_sys = \<lparr>um = userManagement_init\<lparr>users := [root_user, alice, carol]\<rparr>,
               server = [root_user, alice, carol],
               trace = [Await GetUsers (userManagement_init\<lparr>loading := True\<rparr>)]\<rparr>"
  by (simp add: demo_sys_def mounted_def onMounted_def demo_store_def memory_store_def
      fetchUsers_ok [where fetched = "[root_user, alice, carol]" and srv' = "[root_user, alice, carol]"]
      sys_init_def userManagement_init_def)

lemma um_add_session:
  "um (add_session name pw cpw) =
     \<lparr>loading = False, users = [root_user, alice, carol], error = None, modalVisible = True,
      modalTitle = title_add_user, editMode = False, editUserId = None,
      form = \<lparr>form_username = name, password = pw, confirmPassword = cpw,
              form_role = ascii ''user''\<rparr>,
      displayPasswordFields = True\<rparr>"
  by (simp add: add_session_def demo_sys_eq fire_def assign_def flush_watch_def
      showAddUserModal_def userManagement_init_def)

lemma um_edit_session:
  "um (edit_session row name) =
     \<lparr>loading = False, users = [root_user, alice, carol], error = None, modalVisible = True,
      modalTitle = title_edit_user, editMode = True, editUserId = Some (id_field row),
      form = \<lparr>form_username = name, password = [], confirmPassword = [],
              form_role = role row\<rparr>,
      displayPasswordFields = False\<rparr>"
  by (simp add: edit_session_def demo_sys_eq fire_def assign_def flush_watch_def
      watch_displayPasswordFields_def showEditUserModal_def userManagement_init_def)

lemma server_sessions [simp]:
  "server (add_session name pw cpw) = [root_user, alice, carol]"
  "server (edit_session row name) = [root_user, alice, carol]"
  by (simp_all add: add_session_def edit_session_def demo_sys_eq fire_def assign_def)

lemma trim_ascii_examples:
  "trim (ascii ''alice'') = ascii ''alice''"
  "trim (ascii ''bob'') = ascii ''bob''"
  "trim (ascii ''  '') = []"
  "trim [] = []"
  by (simp_all add: trim_def ascii_def is_white_space_def)

lemma ascii_nonempty_examples:
  "ascii ''alice'' \<noteq> []" "ascii ''bob'' \<noteq> []" "ascii ''p1'' \<noteq> []"
  "ascii ''p1'' \<noteq> ascii ''p2''"
  by (simp_all add: ascii_def)

lemma add_alice_facts:
  "passes_validation (um (add_session (ascii ''alice'') (ascii ''p1'') (ascii ''p1'')))"
  "\<not> editMode (um (add_session (ascii ''alice'') (ascii ''p1'') (ascii ''p1'')))"
  "createData (um (add_session (ascii ''alice'') (ascii ''p1'') (ascii ''p1''))) =
     \<lparr>new_username = ascii ''alice'', new_password = ascii ''p1'', new_role = ascii ''user''\<rparr>"
  by (simp_all add: um_add_session createData_def trim_ascii_examples ascii_nonempty_examples)

lemma um_password_session:
  "um (fire demo_store (ClickEdit carol) demo_sys) =
     \<lparr>loading = False, users = [root_user, alice, carol], error = None, modalVisible = True,
      modalTitle = title_edit_user, editMode = True, editUserId = Some 3,
      form = \<lparr>form_username = ascii ''carol'', password = [], confirmPassword = [],
              form_role = ascii ''admin''\<rparr>,
      displayPasswordFields = False\<rparr>"
  "um (fire demo_store (CheckChangePassword True) (fire demo_store (ClickEdit carol) demo_sys)) =
     \<lparr>loading = False, users = [root_user, alice, carol], error = None, modalVisible = True,
      modalTitle = title_edit_user, editMode = True, editUserId = Some 3,
      form = \<lparr>form_username = ascii ''carol'', password = [], confirmPassword = [],
              form_role = ascii ''admin''\<rparr>,
      displayPasswordFields = True\<rparr>"
  "um password_session =
     \<lparr>loading = False, users = [root_user, alice, carol], error = None, modalVisible = True,
      modalTitle = title_edit_user, editMode = True, editUserId = Some 3,
      form = \<lparr>form_username = ascii ''carol'', password = ascii ''p1'', confirmPassword = [],
              form_role = ascii ''admin''\<rparr>,
      displayPasswordFields = True\<rparr>"
  "um (fire demo_store (CheckChangePassword False) password_session) =
     \<lparr>loading = False, users = [root_user, alice, carol], error = None, modalVisible = True,
      modalTitle = title_edit_user, editMode = True, editUserId = Some 3,
      form = \<lparr>form_username = ascii ''carol'', password = [], confirmPassword = [],
              form_role = ascii ''admin''\<rparr>,
      displayPasswordFields = False\<rparr>"
  by (simp_all add: password_session_def demo_sys_eq fire_def assign_def flush_watch_def
      watch_displayPasswordFields_def showEditUserModal_def userManagement_init_def carol_def)

lemma run_password_session:
  "run demo_store
     [ClickEdit carol, CheckChangePassword True, InputPassword (ascii ''p1''),
      CheckChangePassword False]
     (mounted demo_store [root_user, alice, carol])
   = Some (fire demo_store (CheckChangePassword False) password_session)"
proof -
  have e1: "enabled demo_store (um demo_sys) (ClickEdit carol)"
    by (simp add: demo_sys_eq)
  have e2: "enabled demo_store (um (fire demo_store (ClickEdit carol) demo_sys))
    (CheckChangePassword True)"
    by (simp add: um_password_session)
  have e3: "enabled demo_store (um (fire demo_store (CheckChangePassword True)
     (fire demo_store (ClickEdit carol) demo_sys))) (InputPassword (ascii ''p1''))"
    by (simp add: um_password_session)
  have e4: "enabled demo_store (um password_session) (CheckChangePassword False)"
    by (simp add: um_password_session)
  from e4 have e4': "enabled demo_store (um (fire demo_store (InputPassword (ascii ''p1''))
       (fire demo_store (CheckChangePassword True)
         (fire demo_store (ClickEdit carol) demo_sys)))) (CheckChangePassword False)"
    by (simp only: password_session_def)
  show ?thesis
    unfolding demo_sys_def [symmetric] run.simps
    by (simp only: e1 e2 e3 e4' if_True password_session_def)
qed

section \<open>The claims\<close>

subsection \<open>C1: deletion asks first\<close>



subsection \<open>C2: the order of the validation\<close>

text \<open>
  C2. The submit handler checks, in this order and stopping at the first failure: the
  trimmed username is not empty; if \<open>displayPasswordFields\<close>, the password is not empty;
  if \<open>displayPasswordFields\<close>, the password equals its confirmation. A failed check
  raises its own notice and nothing else: no facade operation is called and the service
  is untouched. In particular an empty username, or one of white space only, never
  reaches \<open>createUser\<close> or \<open>updateUser\<close>, and neither do passwords that differ.
\<close>

theorem validation_short_circuits:
  "(trim (form_username (form (um s))) = [] \<longrightarrow>
      emitted s (snd (handleUserFormSubmit store s)) = [NotifyError msg_username_empty None])
   \<and> (trim (form_username (form (um s))) \<noteq> [] \<and> displayPasswordFields (um s)
        \<and> password (form (um s)) = [] \<longrightarrow>
      emitted s (snd (handleUserFormSubmit store s)) = [NotifyError msg_password_empty None])
   \<and> (trim (form_username (form (um s))) \<noteq> [] \<and> displayPasswordFields (um s)
        \<and> password (form (um s)) \<noteq> []
        \<and> password (form (um s)) \<noteq> confirmPassword (form (um s)) \<longrightarrow>
      emitted s (snd (handleUserFormSubmit store s)) = [NotifyError msg_password_mismatch None])
   \<and> (\<not> passes_validation (um s) \<longrightarrow>
        facade_calls (emitted s (snd (handleUserFormSubmit store s))) = []
        \<and> server (snd (handleUserFormSubmit store s)) = server s)
   \<and> ((\<forall>c\<in>set (form_username (form (um s))). is_white_space c) \<longrightarrow>
        facade_calls (emitted s (snd (handleUserFormSubmit store s))) = [])"
proof -
  have a: "emitted s (snd (handleUserFormSubmit store s)) = [NotifyError msg_username_empty None]"
    if "trim (form_username (form (um s))) = []"
    using that by (simp add: submit_rejected submit_try_def emitted_def)
  have b: "emitted s (snd (handleUserFormSubmit store s)) = [NotifyError msg_password_empty None]"
    if "trim (form_username (form (um s))) \<noteq> []" "displayPasswordFields (um s)"
      "password (form (um s)) = []"
    using that by (simp add: submit_rejected submit_try_def emitted_def)
  have c: "emitted s (snd (handleUserFormSubmit store s)) = [NotifyError msg_password_mismatch None]"
    if "trim (form_username (form (um s))) \<noteq> []" "displayPasswordFields (um s)"
      "password (form (um s)) \<noteq> []"
      "password (form (um s)) \<noteq> confirmPassword (form (um s))"
    using that by (simp add: submit_rejected submit_try_def emitted_def)
  have d: "\<exists>m. submit_try store s = emit (NotifyError m None) s"
    if "\<not> passes_validation (um s)"
    using that by (auto simp: submit_try_def)
  have e: "facade_calls (emitted s (snd (handleUserFormSubmit store s))) = []
        \<and> server (snd (handleUserFormSubmit store s)) = server s"
    if "\<not> passes_validation (um s)"
  proof -
    from d [OF that] obtain m where "submit_try store s = emit (NotifyError m None) s" ..
    then show ?thesis by (simp add: submit_rejected emitted_def)
  qed
  have f: "facade_calls (emitted s (snd (handleUserFormSubmit store s))) = []"
    if "\<forall>c\<in>set (form_username (form (um s))). is_white_space c"
    using a [OF trim_blank [OF that]] by simp
  from a b c e f show ?thesis by blast
qed

text \<open>
  The add form with a blank username, with no password, and with two different
  passwords.
\<close>

theorem validation_short_circuits_witness:
  "trim (form_username (form (um (add_session (ascii ''  '') (ascii ''p1'') (ascii ''p1''))))) = []
   \<and> emitted (add_session (ascii ''  '') (ascii ''p1'') (ascii ''p1''))
        (snd (handleUserFormSubmit demo_store
               (add_session (ascii ''  '') (ascii ''p1'') (ascii ''p1''))))
       = [NotifyError msg_username_empty None]
   \<and> emitted (add_session (ascii ''alice'') [] [])
        (snd (handleUserFormSubmit demo_store (add_session (ascii ''alice'') [] [])))
       = [NotifyError msg_password_empty None]
   \<and> emitted (add_session (ascii ''alice'') (ascii ''p1'') (ascii ''p2''))
        (snd (handleUserFormSubmit demo_store
               (add_session (ascii ''alice'') (ascii ''p1'') (ascii ''p2''))))
       = [NotifyError msg_password_mismatch None]"
proof -
  have blank: "trim (form_username (form (um (add_session (ascii ''  '') (ascii ''p1'')
      (ascii ''p1''))))) = []"
    by (simp add: um_add_session trim_ascii_examples)
  have none: "trim (form_username (form (um (add_session (ascii ''alice'') [] [])))) \<noteq> []
      \<and> displayPasswordFields (um (add_session (ascii ''alice'') [] []))
      \<and> password (form (um (add_session (ascii ''alice'') [] []))) = []"
    by (simp add: um_add_session trim_ascii_examples ascii_nonempty_examples)
  have differ: "trim (form_username (form (um (add_session (ascii ''alice'') (ascii ''p1'')
        (ascii ''p2''))))) \<noteq> []
      \<and> displayPasswordFields (um (add_session (ascii ''alice'') (ascii ''p1'') (ascii ''p2'')))
      \<and> password (form (um (add_session (ascii ''alice'') (ascii ''p1'') (ascii ''p2'')))) \<noteq> []
      \<and> password (form (um (add_session (ascii ''alice'') (ascii ''p1'') (ascii ''p2''))))
          \<noteq> confirmPassword (form (um (add_session (ascii ''alice'') (ascii ''p1'')
                (ascii ''p2''))))"
    by (simp add: um_add_session trim_ascii_examples ascii_nonempty_examples)
  from blank validation_short_circuits
      [where store = demo_store and s = "add_session (ascii ''  '') (ascii ''p1'') (ascii ''p1'')"]
  have one: "emitted (add_session (ascii ''  '') (ascii ''p1'') (ascii ''p1''))
        (snd (handleUserFormSubmit demo_store
               (add_session (ascii ''  '') (ascii ''p1'') (ascii ''p1''))))
       = [NotifyError msg_username_empty None]"
    by (rule_tac mp [OF conjunct1])
  from none validation_short_circuits
      [where store = demo_store and s = "add_session (ascii ''alice'') [] []"]
  have two: "emitted (add_session (ascii ''alice'') [] [])
        (snd (handleUserFormSubmit demo_store (add_session (ascii ''alice'') [] [])))
       = [NotifyError msg_password_empty None]"
    by (rule_tac mp [OF conjunct1 [OF conjunct2]])
  from differ validation_short_circuits
      [where store = demo_store
         and s = "add_session (ascii ''alice'') (ascii ''p1'') (ascii ''p2'')"]
  have three: "emitted (add_session (ascii ''alice'') (ascii ''p1'') (ascii ''p2''))
        (snd (handleUserFormSubmit demo_store
               (add_session (ascii ''alice'') (ascii ''p1'') (ascii ''p2''))))
       = [NotifyError msg_password_mismatch None]"
    by (rule_tac mp [OF conjunct1 [OF conjunct2 [OF conjunct2]]])
  from blank one two three show ?thesis by (intro conjI)
qed

subsection \<open>C3: the payload of an update\<close>

text \<open>
  C3. In edit mode, a submission that passes the validation calls \<open>updateUser\<close> first,
  with the id being edited and a payload made of the trimmed username, the role, and a
  password exactly when \<open>displayPasswordFields\<close> holds and the password is not empty
  (then it is the password of the form). The only facade call that may follow is the
  list fetch. With \<open>displayPasswordFields\<close> false the payload has no password.
\<close>

theorem edit_payload:
  assumes "passes_validation (um s)" and "editMode (um s)"
  shows "(facade_calls (emitted s (snd (handleUserFormSubmit store s))) =
            [UpdateUser (editUserId (um s))
               \<lparr>upd_username = trim (form_username (form (um s))),
                upd_role = form_role (form (um s)),
                upd_password =
                  (if displayPasswordFields (um s) \<and> password (form (um s)) \<noteq> []
                   then Some (password (form (um s))) else None)\<rparr>]
        \<or> facade_calls (emitted s (snd (handleUserFormSubmit store s))) =
            [UpdateUser (editUserId (um s))
               \<lparr>upd_username = trim (form_username (form (um s))),
                upd_role = form_role (form (um s)),
                upd_password =
                  (if displayPasswordFields (um s) \<and> password (form (um s)) \<noteq> []
                   then Some (password (form (um s))) else None)\<rparr>,
             GetUsers])
     \<and> (\<forall>i d. UpdateUser i d \<in> set (facade_calls (emitted s (snd (handleUserFormSubmit store s))))
           \<longrightarrow> (upd_password d \<noteq> None
                  \<longleftrightarrow> displayPasswordFields (um s) \<and> password (form (um s)) \<noteq> [])
               \<and> (\<not> displayPasswordFields (um s) \<longrightarrow> upd_password d = None))"
proof (cases "updateUser store (editUserId (um s)) (updateData (um s)) (server s)")
  case (Pair r srv1)
  show ?thesis
  proof (cases r)
    case (Inl err)
    with Pair have "updateUser store (editUserId (um s)) (updateData (um s)) (server s)
      = (Inl err, srv1)" by simp
    from submit_update_failed [OF assms this] show ?thesis
      by (simp add: emitted_def updateData_def)
  next
    case (Inr u)
    with Pair have "updateUser store (editUserId (um s)) (updateData (um s)) (server s)
      = (Inr (), srv1)" by simp
    from submit_update_ok [OF assms this] show ?thesis
      by (simp add: emitted_after_mutation emitted_fetch_calls updateData_def)
  qed
qed

text \<open>
  Editing \<open>carol\<close> (id 3) with the password section hidden and the username changed to
  \<open>bob\<close>: the update carries \<open>bob\<close> and her role, and no password.
\<close>

theorem edit_payload_witness:
  "trim (form_username (form (um (edit_session carol (ascii ''bob''))))) \<noteq> []
   \<and> \<not> displayPasswordFields (um (edit_session carol (ascii ''bob'')))
   \<and> editMode (um (edit_session carol (ascii ''bob'')))
   \<and> (facade_calls (emitted (edit_session carol (ascii ''bob''))
          (snd (handleUserFormSubmit demo_store (edit_session carol (ascii ''bob'')))))
         = [UpdateUser (Some 3)
              \<lparr>upd_username = ascii ''bob'', upd_role = ascii ''admin'', upd_password = None\<rparr>]
       \<or> facade_calls (emitted (edit_session carol (ascii ''bob''))
          (snd (handleUserFormSubmit demo_store (edit_session carol (ascii ''bob'')))))
         = [UpdateUser (Some 3)
              \<lparr>upd_username = ascii ''bob'', upd_role = ascii ''admin'', upd_password = None\<rparr>,
            GetUsers])"
proof -
  have v: "passes_validation (um (edit_session carol (ascii ''bob'')))"
    by (simp add: um_edit_session trim_ascii_examples ascii_nonempty_examples)
  have e: "editMode (um (edit_session carol (ascii ''bob'')))"
    by (simp add: um_edit_session)
  have p: "editUserId (um (edit_session carol (ascii ''bob''))) = Some 3"
    "trim (form_username (form (um (edit_session carol (ascii ''bob''))))) = ascii ''bob''"
    "form_role (form (um (edit_session carol (ascii ''bob'')))) = ascii ''admin''"
    "\<not> displayPasswordFields (um (edit_session carol (ascii ''bob'')))"
    by (simp_all add: um_edit_session trim_ascii_examples carol_def)
  from edit_payload [OF v e, of demo_store] p have calls:
    "facade_calls (emitted (edit_session carol (ascii ''bob''))
          (snd (handleUserFormSubmit demo_store (edit_session carol (ascii ''bob'')))))
         = [UpdateUser (Some 3)
              \<lparr>upd_username = ascii ''bob'', upd_role = ascii ''admin'', upd_password = None\<rparr>]
       \<or> facade_calls (emitted (edit_session carol (ascii ''bob''))
          (snd (handleUserFormSubmit demo_store (edit_session carol (ascii ''bob'')))))
         = [UpdateUser (Some 3)
              \<lparr>upd_username = ascii ''bob'', upd_role = ascii ''admin'', upd_password = None\<rparr>,
            GetUsers]"
    by simp
  from p(2,4) have named: "trim (form_username (form (um (edit_session carol (ascii ''bob'')))))
      \<noteq> []"
    by (simp add: ascii_nonempty_examples)
  show ?thesis by (rule conjI [OF named conjI [OF p(4) conjI [OF e calls]]])
qed

subsection \<open>C4: the contract of the list fetch\<close>

text \<open>
  C4. Every run of \<open>fetchUsers\<close> first sets \<open>loading\<close> and awaits the list operation
  of the facade (its only facade call). When the operation returns, \<open>users\<close> becomes
  the returned list and \<open>error\<close> is cleared; when it throws, \<open>error\<close> becomes the fixed
  message and \<open>users\<close> stays as it was. In both cases \<open>loading\<close> is false at the end.
\<close>

theorem fetchUsers_contract:
  "take 1 (emitted s (snd (fetchUsers store s))) = [Await GetUsers ((um s)\<lparr>loading := True\<rparr>)]
   \<and> facade_calls (emitted s (snd (fetchUsers store s))) = [GetUsers]
   \<and> (\<forall>fetched srv'. getUsers store (server s) = (Inr fetched, srv') \<longrightarrow>
         users (um (snd (fetchUsers store s))) = fetched
         \<and> error (um (snd (fetchUsers store s))) = None)
   \<and> (\<forall>err srv'. getUsers store (server s) = (Inl err, srv') \<longrightarrow>
         error (um (snd (fetchUsers store s))) = Some msg_fetch_failed
         \<and> users (um (snd (fetchUsers store s))) = users (um s))
   \<and> loading (um (snd (fetchUsers store s))) = False"
proof (cases "getUsers store (server s)")
  case (Pair r srv')
  show ?thesis
  proof (cases r)
    case (Inl err)
    with Pair show ?thesis by (simp add: fetchUsers_fail emitted_def)
  next
    case (Inr fetched)
    with Pair show ?thesis by (simp add: fetchUsers_ok emitted_def)
  qed
qed

text \<open>
  A service that answers with one account, and a list operation that throws.
\<close>

theorem fetchUsers_contract_witness:
  "getUsers demo_store (server (sys_init [alice])) = (Inr [alice], [alice])
   \<and> users (um (snd (fetchUsers demo_store (sys_init [alice])))) = [alice]
   \<and> error (um (snd (fetchUsers demo_store (sys_init [alice])))) = None
   \<and> getUsers (demo_store\<lparr>getUsers := offline\<rparr>) (server demo_sys)
       = (Inl (JsError (Some (ascii ''offline''))), [root_user, alice, carol])
   \<and> error (um (snd (fetchUsers (demo_store\<lparr>getUsers := offline\<rparr>) demo_sys)))
       = Some msg_fetch_failed
   \<and> users (um (snd (fetchUsers (demo_store\<lparr>getUsers := offline\<rparr>) demo_sys)))
       = users (um demo_sys)"
proof -
  have up: "getUsers demo_store (server (sys_init [alice])) = (Inr [alice], [alice])"
    by (simp add: demo_store_def memory_store_def sys_init_def)
  have down: "getUsers (demo_store\<lparr>getUsers := offline\<rparr>) (server demo_sys)
       = (Inl (JsError (Some (ascii ''offline''))), [root_user, alice, carol])"
    by (simp add: demo_sys_eq offline_def)
  from up down
    fetchUsers_contract [where store = demo_store and s = "sys_init [alice]"]
    fetchUsers_contract [where store = "demo_store\<lparr>getUsers := offline\<rparr>" and s = demo_sys]
  show ?thesis by blast
qed

subsection \<open>C5: the list is fetched again after a mutation\<close>



subsection \<open>C6: hiding the password section clears the passwords\<close>

text \<open>
  C6. When an event takes \<open>displayPasswordFields\<close> from true to false, both password
  fields are empty once the watcher has run. In every state a session can reach from
  the mounted component, \<open>displayPasswordFields\<close> false implies that both password
  fields are empty; so ticking the box again starts from blank password fields.
\<close>

theorem password_fields_cleared:
  "(displayPasswordFields (um s) \<and> \<not> displayPasswordFields (um (fire store ev s)) \<longrightarrow>
      password (form (um (fire store ev s))) = []
      \<and> confirmPassword (form (um (fire store ev s))) = [])
   \<and> (\<forall>s'. run store evs (mounted store srv0) = Some s' \<and> \<not> displayPasswordFields (um s') \<longrightarrow>
         password (form (um s')) = [] \<and> confirmPassword (form (um s')) = [])
   \<and> (\<forall>s'. run store evs (mounted store srv0) = Some s' \<and> \<not> displayPasswordFields (um s')
         \<and> enabled store (um s') (CheckChangePassword True) \<longrightarrow>
         displayPasswordFields (um (fire store (CheckChangePassword True) s'))
         \<and> password (form (um (fire store (CheckChangePassword True) s'))) = []
         \<and> confirmPassword (form (um (fire store (CheckChangePassword True) s'))) = [])"
proof -
  have a: "password (form (um (fire store ev s))) = []
      \<and> confirmPassword (form (um (fire store ev s))) = []"
    if "displayPasswordFields (um s) \<and> \<not> displayPasswordFields (um (fire store ev s))"
    using that
    by (simp add: fire_def Let_def flush_watch_def watch_displayPasswordFields_def
        split: if_splits)
  have b: "password (form (um s')) = [] \<and> confirmPassword (form (um s')) = []"
    if "run store evs (mounted store srv0) = Some s' \<and> \<not> displayPasswordFields (um s')" for s'
    using session_inv [of store evs srv0 s'] that by (simp add: form_inv_def)
  have c: "displayPasswordFields (um (fire store (CheckChangePassword True) s'))
         \<and> password (form (um (fire store (CheckChangePassword True) s'))) = []
         \<and> confirmPassword (form (um (fire store (CheckChangePassword True) s'))) = []"
    if "run store evs (mounted store srv0) = Some s' \<and> \<not> displayPasswordFields (um s')
         \<and> enabled store (um s') (CheckChangePassword True)" for s'
    using b [of s'] that
    by (simp add: fire_def Let_def assign_def flush_watch_def watch_displayPasswordFields_def)
  from a b c show ?thesis by blast
qed

text \<open>
  Editing \<open>carol\<close>, ticking the box, typing a password and unticking the box.
\<close>

theorem password_fields_cleared_witness:
  "displayPasswordFields (um password_session)
   \<and> password (form (um password_session)) = ascii ''p1''
   \<and> \<not> displayPasswordFields (um (fire demo_store (CheckChangePassword False) password_session))
   \<and> password (form (um (fire demo_store (CheckChangePassword False) password_session))) = []
   \<and> run demo_store
        [ClickEdit carol, CheckChangePassword True, InputPassword (ascii ''p1''),
         CheckChangePassword False]
        (mounted demo_store [root_user, alice, carol])
      = Some (fire demo_store (CheckChangePassword False) password_session)
   \<and> confirmPassword (form (um (fire demo_store (CheckChangePassword False) password_session))) = []
   \<and> displayPasswordFields (um (fire demo_store (CheckChangePassword True)
        (fire demo_store (CheckChangePassword False) password_session)))
   \<and> password (form (um (fire demo_store (CheckChangePassword True)
        (fire demo_store (CheckChangePassword False) password_session)))) = []"
proof -
  let ?off = "fire demo_store (CheckChangePassword False) password_session"
  have before: "displayPasswordFields (um password_session)"
    "password (form (um password_session)) = ascii ''p1''"
    by (simp_all add: um_password_session)
  have after: "\<not> displayPasswordFields (um ?off)"
    by (simp add: um_password_session)
  have box: "enabled demo_store (um ?off) (CheckChangePassword True)"
    by (simp add: um_password_session)
  note claim = password_fields_cleared
    [where store = demo_store and s = password_session and ev = "CheckChangePassword False"
       and evs = "[ClickEdit carol, CheckChangePassword True, InputPassword (ascii ''p1''),
         CheckChangePassword False]"
       and ?srv0.0 = "[root_user, alice, carol]"]
  from claim before after box run_password_session show ?thesis by blast
qed

subsection \<open>C7: when the delete button is disabled\<close>

text \<open>
  C7. The delete button of a row is disabled exactly when the row's id is the id of the
  signed-in user, or the row's role is \<open>superadmin\<close> and the role of the signed-in user
  is not; in every other case the row can be deleted.
\<close>

theorem delete_control_gating:
  "(delete_disabled store row \<longleftrightarrow>
      id_field row = userId store
      \<or> (role row = ascii ''superadmin'' \<and> userRole store \<noteq> ascii ''superadmin''))
   \<and> (row \<in> set (users u) \<longrightarrow>
        (enabled store u (ClickDelete row d) \<longleftrightarrow>
           id_field row \<noteq> userId store
           \<and> (role row = ascii ''superadmin'' \<longrightarrow> userRole store = ascii ''superadmin'')))"
  by (auto simp: delete_disabled_def)

text \<open>
  Signed in as the admin \<open>carol\<close>: the rows of \<open>root\<close> and of \<open>carol\<close> are disabled,
  the row of \<open>alice\<close> is not. Signed in as \<open>root\<close>, the row of \<open>carol\<close> is not.
\<close>

theorem delete_control_gating_witness:
  "root_user \<in> set (users (um demo_sys))
   \<and> delete_disabled (memory_store 3 (ascii ''admin'')) root_user
   \<and> delete_disabled (memory_store 3 (ascii ''admin'')) carol
   \<and> \<not> delete_disabled (memory_store 3 (ascii ''admin'')) alice
   \<and> \<not> enabled (memory_store 3 (ascii ''admin'')) (um demo_sys) (ClickDelete root_user Accepted)
   \<and> \<not> delete_disabled demo_store carol"
proof -
  have row: "root_user \<in> set (users (um demo_sys))" by (simp add: demo_sys_eq)
  have facts: "id_field root_user \<noteq> userId (memory_store 3 (ascii ''admin''))"
    "role root_user = ascii ''superadmin''"
    "userRole (memory_store 3 (ascii ''admin'')) \<noteq> ascii ''superadmin''"
    "id_field carol = userId (memory_store 3 (ascii ''admin''))"
    "id_field alice \<noteq> userId (memory_store 3 (ascii ''admin''))"
    "role alice \<noteq> ascii ''superadmin''"
    "id_field carol \<noteq> userId demo_store"
    "role carol \<noteq> ascii ''superadmin''"
    by (simp_all add: demo_defs ascii_def)
  from row facts
    delete_control_gating [where store = "memory_store 3 (ascii ''admin'')" and row = root_user
      and u = "um demo_sys" and d = Accepted]
    delete_control_gating [where store = "memory_store 3 (ascii ''admin'')" and row = carol]
    delete_control_gating [where store = "memory_store 3 (ascii ''admin'')" and row = alice]
    delete_control_gating [where store = demo_store and row = carol]
  show ?thesis by blast
qed

subsection \<open>C8: what a failed validation leaves alone\<close>




subsection \<open>C9: role labels\<close>

text \<open>
  C9, as the code has it. \<open>getRoleLabel\<close> maps \<open>superadmin\<close>, \<open>admin\<close> and \<open>user\<close> to
  the Chinese labels of lines 377-379 (the code units U+8D85 U+7EA7 U+7BA1 U+7406
  U+5458, then U+7BA1 U+7406 U+5458, then U+666E U+901A U+7528 U+6237) and returns any
  other role string as it is.
\<close>

theorem getRoleLabel_table:
  "getRoleLabel (ascii ''superadmin'') = [0x8D85, 0x7EA7, 0x7BA1, 0x7406, 0x5458]
   \<and> getRoleLabel (ascii ''admin'') = [0x7BA1, 0x7406, 0x5458]
   \<and> getRoleLabel (ascii ''user'') = [0x666E, 0x901A, 0x7528, 0x6237]
   \<and> (r \<noteq> ascii ''superadmin'' \<and> r \<noteq> ascii ''admin'' \<and> r \<noteq> ascii ''user''
        \<longrightarrow> getRoleLabel r = r)"
  by (simp add: getRoleLabel_def ascii_def label_superadmin_def label_admin_def label_user_def)

text \<open>
  An unknown role.
\<close>

theorem getRoleLabel_table_witness:
  "ascii ''guest'' \<noteq> ascii ''superadmin'' \<and> ascii ''guest'' \<noteq> ascii ''admin''
   \<and> ascii ''guest'' \<noteq> ascii ''user'' \<and> getRoleLabel (ascii ''guest'') = ascii ''guest''"
proof -
  have other: "ascii ''guest'' \<noteq> ascii ''superadmin'' \<and> ascii ''guest'' \<noteq> ascii ''admin''
    \<and> ascii ''guest'' \<noteq> ascii ''user''"
    by (simp add: ascii_def)
  from getRoleLabel_table [of "ascii ''guest''"] other show ?thesis by blast
qed

text \<open>
  C9 as stated, with the English label \<open>Super Admin\<close>, fails.
\<close>

theorem getRoleLabel_not_english:
  "getRoleLabel (ascii ''superadmin'') \<noteq> ascii ''Super Admin''"
  by (simp add: getRoleLabel_def ascii_def label_superadmin_def)

subsection \<open>C10: a failed refetch does not undo a success\<close>

text \<open>
  C10. \<open>fetchUsers\<close> always completes normally, whatever the facade does. So when a
  submission passes the validation and \<open>updateUser\<close> or \<open>createUser\<close> returns, the
  handler completes normally, the success notice is out and the modal is closed, and
  neither the error notice nor the console line of the handler's \<open>catch\<close> block
  appears, also when the list fetch that follows throws.
\<close>

theorem refetch_failure_keeps_success:
  "fst (fetchUsers store t) = Inr ()
   \<and> (passes_validation (um s)
        \<and> fst (if editMode (um s)
                then updateUser store (editUserId (um s)) (updateData (um s)) (server s)
                else createUser store (createData (um s)) (server s)) = Inr ()
      \<longrightarrow> fst (handleUserFormSubmit store s) = Inr ()
          \<and> NotifySuccess (if editMode (um s) then msg_update_ok else msg_create_ok)
               \<in> set (emitted s (snd (handleUserFormSubmit store s)))
          \<and> modalVisible (um (snd (handleUserFormSubmit store s))) = False
          \<and> (\<forall>d. NotifyError msg_operation_failed d
                 \<notin> set (emitted s (snd (handleUserFormSubmit store s))))
          \<and> (\<forall>e. ConsoleError log_operation_failed e
                 \<notin> set (emitted s (snd (handleUserFormSubmit store s)))))"
proof -
  have ok: "fst (handleUserFormSubmit store s) = Inr ()
      \<and> NotifySuccess (if editMode (um s) then msg_update_ok else msg_create_ok)
               \<in> set (emitted s (snd (handleUserFormSubmit store s)))
      \<and> modalVisible (um (snd (handleUserFormSubmit store s))) = False
      \<and> (\<forall>d. NotifyError msg_operation_failed d
                 \<notin> set (emitted s (snd (handleUserFormSubmit store s))))
      \<and> (\<forall>e. ConsoleError log_operation_failed e
                 \<notin> set (emitted s (snd (handleUserFormSubmit store s))))"
    if h: "passes_validation (um s)
        \<and> fst (if editMode (um s)
                then updateUser store (editUserId (um s)) (updateData (um s)) (server s)
                else createUser store (createData (um s)) (server s)) = Inr ()"
  proof (cases "editMode (um s)")
    case True
    from h have v: "passes_validation (um s)" by blast
    from h True obtain srv1 where
      "updateUser store (editUserId (um s)) (updateData (um s)) (server s) = (Inr (), srv1)"
      by (cases "updateUser store (editUserId (um s)) (updateData (um s)) (server s)") auto
    from submit_update_ok [OF v True this] True show ?thesis
      by (simp add: emitted_after_mutation emitted_fetch_quiet)
  next
    case False
    from h have v: "passes_validation (um s)" by blast
    from h False obtain srv1 where
      "createUser store (createData (um s)) (server s) = (Inr (), srv1)"
      by (cases "createUser store (createData (um s)) (server s)") auto
    from submit_create_ok [OF v False this] False show ?thesis
      by (simp add: emitted_after_mutation emitted_fetch_quiet)
  qed
  from fetchUsers_returns [of store t] ok show ?thesis by blast
qed

text \<open>
  Adding \<open>alice\<close> on a facade whose list operation throws.
\<close>

theorem refetch_failure_keeps_success_witness:
  "trim (form_username (form (um (add_session (ascii ''alice'') (ascii ''p1'') (ascii ''p1'')))))
     \<noteq> []
   \<and> password (form (um (add_session (ascii ''alice'') (ascii ''p1'') (ascii ''p1''))))
       = confirmPassword (form (um (add_session (ascii ''alice'') (ascii ''p1'') (ascii ''p1''))))
   \<and> fst (getUsers (demo_store\<lparr>getUsers := offline\<rparr>) [root_user, alice, carol])
       = Inl (JsError (Some (ascii ''offline'')))
   \<and> NotifySuccess msg_create_ok
       \<in> set (emitted (add_session (ascii ''alice'') (ascii ''p1'') (ascii ''p1''))
            (snd (handleUserFormSubmit (demo_store\<lparr>getUsers := offline\<rparr>)
                   (add_session (ascii ''alice'') (ascii ''p1'') (ascii ''p1'')))))
   \<and> modalVisible (um (snd (handleUserFormSubmit (demo_store\<lparr>getUsers := offline\<rparr>)
                   (add_session (ascii ''alice'') (ascii ''p1'') (ascii ''p1''))))) = False"
proof -
  let ?s = "add_session (ascii ''alice'') (ascii ''p1'') (ascii ''p1'')"
  let ?store = "demo_store\<lparr>getUsers := offline\<rparr>"
  have down: "fst (getUsers ?store [root_user, alice, carol])
       = Inl (JsError (Some (ascii ''offline'')))"
    by (simp add: offline_def)
  have h: "passes_validation (um ?s)
    \<and> fst (if editMode (um ?s)
            then updateUser ?store (editUserId (um ?s)) (updateData (um ?s)) (server ?s)
            else createUser ?store (createData (um ?s)) (server ?s)) = Inr ()"
    by (intro conjI add_alice_facts(1) [THEN conjunct1] add_alice_facts(1) [THEN conjunct2])
       (simp add: add_alice_facts(2) demo_store_def memory_store_def)
  from refetch_failure_keeps_success
      [where store = ?store and s = ?s and t = ?s, THEN conjunct2, THEN mp, OF h]
    add_alice_facts(2)
  have "NotifySuccess msg_create_ok \<in> set (emitted ?s (snd (handleUserFormSubmit ?store ?s)))
    \<and> modalVisible (um (snd (handleUserFormSubmit ?store ?s))) = False"
    by simp
  moreover have "password (form (um ?s)) = confirmPassword (form (um ?s))"
    by (simp add: um_add_session)
  ultimately show ?thesis using add_alice_facts(1) down by blast
qed

end
